theory Spec2Isabelle
  imports Main "HOL-Library.Char_ord" "HOL-Library.List_Lexorder" "HOL-Library.AList"
begin

section \<open>The validation web server (validation\_webserver.go)\<close>

text \<open>
  The handler of the web server is a function of the wall clock and of the request. The
  model passes the clock reading in as an argument, returns what the handler wrote to its
  response writer, and returns a panic as a value. The line the handler prints on standard
  output is not part of the response and is left out.
\<close>

subsection \<open>Wall-clock time and its renderings (package time)\<close>

text \<open>
  A reading of \<^verbatim>\<open>time.Now().UTC()\<close>, by its civil fields. The fields other than the year
  are never negative, so they are natural numbers; on them Go's truncating division is
  the division of HOL.
\<close>

record Time =
  Year :: int
  Month :: nat
  Day :: nat
  Hour :: nat
  Minute :: nat
  Second :: nat
  Nanosecond :: nat

text \<open>
  \<^verbatim>\<open>time.Date(year, month, day, hour, min, sec, nsec, loc)\<close>. The handler calls it on the
  fields of a clock reading, with the seconds replaced by a value between 0 and 59, and on
  the literal date of the static resource: the arguments are in range and Go's
  normalisation leaves them as they are.
\<close>

definition Date :: "int \<Rightarrow> nat \<Rightarrow> nat \<Rightarrow> nat \<Rightarrow> nat \<Rightarrow> nat \<Rightarrow> nat \<Rightarrow> Time" where
  "Date y mo d h mi s ns =
     \<lparr>Year = y, Month = mo, Day = d, Hour = h, Minute = mi, Second = s, Nanosecond = ns\<rparr>"

text \<open>The decimal digits of a number, the most significant first.\<close>

fun decimal :: "nat \<Rightarrow> string" where
  "decimal n =
     (if n < 10 then [''0123456789'' ! n]
      else decimal (n div 10) @ [''0123456789'' ! (n mod 10)])"

declare decimal.simps [simp del]

text \<open>\<^verbatim>\<open>appendInt(b, x, width)\<close>: the decimal form of x, padded with zeros to the width.\<close>

definition appendInt :: "int \<Rightarrow> nat \<Rightarrow> string" where
  "appendInt x width =
     (let ds = decimal (nat \<bar>x\<bar>)
      in (if x < 0 then ''-'' else '''') @ replicate (width - length ds) (CHR ''0'') @ ds)"

text \<open>The day of the week of a civil date, 0 for Sunday, as \<^verbatim>\<open>Time.Weekday\<close> gives it.\<close>

definition Weekday :: "Time \<Rightarrow> nat" where
  "Weekday t =
     (let y = (if Month t < 3 then Year t - 1 else Year t);
          off = [0, 3, 2, 5, 0, 3, 5, 1, 4, 6, 2, 4 :: int] ! ((Month t - 1) mod 12)
      in nat ((y + y div 4 - y div 100 + y div 400 + off + int (Day t)) mod 7))"

definition shortDayNames :: "string list" where
  "shortDayNames = [''Sun'', ''Mon'', ''Tue'', ''Wed'', ''Thu'', ''Fri'', ''Sat'']"

definition shortMonthNames :: "string list" where
  "shortMonthNames = [''Jan'', ''Feb'', ''Mar'', ''Apr'', ''May'', ''Jun'',
                      ''Jul'', ''Aug'', ''Sep'', ''Oct'', ''Nov'', ''Dec'']"

text \<open>
  \<^verbatim>\<open>t.Format(time.RFC1123Z)\<close>, layout \<^verbatim>\<open>Mon, 02 Jan 2006 15:04:05 -0700\<close>, in UTC, for
  a month between 1 and 12, as every clock reading has.
\<close>

definition Format_RFC1123Z :: "Time \<Rightarrow> string" where
  "Format_RFC1123Z t =
     shortDayNames ! (Weekday t mod 7) @ '', '' @ appendInt (int (Day t)) 2 @ '' '' @
     shortMonthNames ! ((Month t - 1) mod 12) @ '' '' @ appendInt (Year t) 4 @ '' '' @
     appendInt (int (Hour t)) 2 @ '':'' @ appendInt (int (Minute t)) 2 @ '':'' @
     appendInt (int (Second t)) 2 @ '' +0000''"

text \<open>\<^verbatim>\<open>t.Format("2006-01-02,15:04:05")\<close>, the layout of the entity tag.\<close>

definition Format_etag :: "Time \<Rightarrow> string" where
  "Format_etag t =
     appendInt (Year t) 4 @ ''-'' @ appendInt (int (Month t)) 2 @ ''-'' @
     appendInt (int (Day t)) 2 @ '','' @ appendInt (int (Hour t)) 2 @ '':'' @
     appendInt (int (Minute t)) 2 @ '':'' @ appendInt (int (Second t)) 2"

subsection \<open>Substring search (package strings)\<close>

text \<open>\<^verbatim>\<open>strings.Index(s, substr)\<close>: the index of the first occurrence, or -1.\<close>

fun Index_from :: "nat \<Rightarrow> string \<Rightarrow> string \<Rightarrow> int" where
  "Index_from i [] substr = (if substr = [] then int i else - 1)"
| "Index_from i (c # cs) substr =
     (if take (length substr) (c # cs) = substr then int i else Index_from (Suc i) cs substr)"

definition Index :: "string \<Rightarrow> string \<Rightarrow> int" where
  "Index s substr = Index_from 0 s substr"

subsection \<open>Header maps (package net/http)\<close>

text \<open>
  \<^verbatim>\<open>http.Header\<close> is a map from canonical keys to lists of values; the list of pairs
  keeps one entry for each key. The server stores the keys of a request in canonical form.
\<close>

type_synonym Header = "(string \<times> string list) list"

definition toUpper :: "char \<Rightarrow> char" where
  "toUpper c = (if CHR ''a'' \<le> c \<and> c \<le> CHR ''z'' then char_of (of_char c - 32 :: nat) else c)"

definition toLower :: "char \<Rightarrow> char" where
  "toLower c = (if CHR ''A'' \<le> c \<and> c \<le> CHR ''Z'' then char_of (of_char c + 32 :: nat) else c)"

text \<open>
  \<^verbatim>\<open>CanonicalMIMEHeaderKey\<close> on a key made of token characters: the first letter and each
  letter after a hyphen in upper case, the other letters in lower case.
\<close>

fun canonical :: "bool \<Rightarrow> string \<Rightarrow> string" where
  "canonical upper [] = []"
| "canonical upper (c # cs) =
     (let c' = (if upper then toUpper c else toLower c) in c' # canonical (c' = CHR ''-'') cs)"

definition CanonicalMIMEHeaderKey :: "string \<Rightarrow> string" where
  "CanonicalMIMEHeaderKey s = canonical True s"

definition Get :: "Header \<Rightarrow> string \<Rightarrow> string" where
  "Get h key =
     (case map_of h (CanonicalMIMEHeaderKey key) of
        Some (v # vs) \<Rightarrow> v
      | _ \<Rightarrow> [])"

definition Set_header :: "Header \<Rightarrow> string \<Rightarrow> string \<Rightarrow> Header" where
  "Set_header h key v = AList.update (CanonicalMIMEHeaderKey key) [v] h"

definition Add :: "Header \<Rightarrow> string \<Rightarrow> string \<Rightarrow> Header" where
  "Add h key v =
     (let k = CanonicalMIMEHeaderKey key
      in case map_of h k of
           None \<Rightarrow> AList.update k [v] h
         | Some vs \<Rightarrow> AList.update k (vs @ [v]) h)"

definition Del :: "Header \<Rightarrow> string \<Rightarrow> Header" where
  "Del h key = AList.delete (CanonicalMIMEHeaderKey key) h"

record Request =
  Method :: string
  Path :: string
  Header :: Header

text \<open>
  What the handler has written to its \<^verbatim>\<open>http.ResponseWriter\<close> when it returns: the
  status, the header map and the bytes of the body. What the server then does with it on
  the wire (it sends no body with a 304) is outside the handler.
\<close>

record Response =
  StatusCode :: nat
  RespHeader :: Header
  Body :: string

text \<open>
  \<^verbatim>\<open>http.Error(w, message, code)\<close> on a writer whose header map is h: the content type of
  plain text, the status line and the message on a line.
\<close>

definition Error :: "Header \<Rightarrow> string \<Rightarrow> nat \<Rightarrow> Response" where
  "Error h message code =
     \<lparr>StatusCode = code,
      RespHeader = Set_header (Set_header (Del h ''Content-Length'')
                     ''Content-Type'' ''text/plain; charset=utf-8'')
                     ''X-Content-Type-Options'' ''nosniff'',
      Body = message @ ''\<newline>''\<rparr>"

text \<open>\<^verbatim>\<open>strconv.Itoa\<close> on a length.\<close>

definition Itoa :: "nat \<Rightarrow> string" where
  "Itoa n = decimal n"

subsection \<open>The response-body writer\<close>

datatype panic = SliceBoundsOutOfRange | IndexOutOfRange

record ByteWriter =
  buf :: string
  pos :: nat

text \<open>\<^verbatim>\<open>make([]byte, 4096)\<close>: 4096 zero bytes, and the capacity is the length.\<close>

definition Buffy :: ByteWriter where
  "Buffy = \<lparr>buf = replicate 4096 (CHR 0x00), pos = 0\<rparr>"

text \<open>
  \<^verbatim>\<open>copy(s.buf[s.pos:s.pos+n], bs)\<close>: the slice expression panics when its upper bound is
  beyond the capacity of the buffer; otherwise the n bytes are copied in place.
\<close>

definition Write :: "ByteWriter \<Rightarrow> string \<Rightarrow> panic + ByteWriter" where
  "Write s bs =
     (let n = length bs
      in if length (buf s) < pos s + n then Inl SliceBoundsOutOfRange
         else Inr \<lparr>buf = take (pos s) (buf s) @ bs @ drop (pos s + n) (buf s),
                   pos = pos s + n\<rparr>)"

definition AsString :: "ByteWriter \<Rightarrow> panic + string" where
  "AsString b =
     (if length (buf b) < pos b then Inl SliceBoundsOutOfRange
      else Inr (take (pos b) (buf b)))"

text \<open>A sequence of writes, one after the other; the first panic ends it.\<close>

fun Write_all :: "ByteWriter \<Rightarrow> string list \<Rightarrow> panic + ByteWriter" where
  "Write_all b [] = Inr b"
| "Write_all b (bs # rest) =
     (case Write b bs of Inl e \<Rightarrow> Inl e | Inr b' \<Rightarrow> Write_all b' rest)"

subsection \<open>The handler\<close>

definition granularity_in_seconds :: nat where
  "granularity_in_seconds = 15"

definition help_text :: string where
  "help_text =
     ''\<newline>'' @
     ''USAGE: You can go to any URL and get some basic content.\<newline>'' @
     ''\<newline>'' @
     ''If the following components are present in the path URL, then you will\<newline>'' @
     ''get some additional behaviour:\<newline>'' @
     ''  /datemod/ -> Sets a Date-Modified header and performs date resource validation.\<newline>'' @
     ''  /etag/ -> Sets an E-Tag header and performs E-Tag resource validation.\<newline>'' @
     ''  /headers/ -> Includes the request headers in the content response.\<newline>'' @
     ''  /static/ -> Uses a fixed timestamp rather than an updating one.\<newline>'' @
     ''  \<newline>'' @
     ''You can combine the path components too:\<newline>'' @
     ''  /resource/headers/static/blahblah/etag/anythingyoulike/\<newline>''"

text \<open>
  The date of the content (the variable \<^verbatim>\<open>then\<close>): the clock reading with its seconds
  lowered to a multiple of the granularity and its nanoseconds dropped, or the fixed date
  of a static resource. The handler uses it with the granularity of 15 seconds.
\<close>

definition then_time :: "nat \<Rightarrow> Time \<Rightarrow> bool \<Rightarrow> Time" where
  "then_time granularity now be_static =
     (let seconds = (Second now div granularity) * granularity;
          then' = Date (Year now) (Month now) (Day now) (Hour now) (Minute now) seconds 0
      in if be_static then Date 2012 12 20 20 12 12 0 else then')"

text \<open>The four flags of the path, each the presence of a substring.\<close>

definition print_headers :: "Request \<Rightarrow> bool" where
  "print_headers r = (Index (Path r) ''/headers/'' \<noteq> - 1)"

definition use_etags :: "Request \<Rightarrow> bool" where
  "use_etags r = (Index (Path r) ''/etag/'' \<noteq> - 1)"

definition use_lastmod :: "Request \<Rightarrow> bool" where
  "use_lastmod r = (Index (Path r) ''/lastmod/'' \<noteq> - 1)"

definition be_static :: "Request \<Rightarrow> bool" where
  "be_static r = (Index (Path r) ''/static/'' \<noteq> - 1)"

text \<open>The variables \<^verbatim>\<open>then_header\<close> and \<^verbatim>\<open>etag_enc\<close> of the handler.\<close>

definition then_header :: "Time \<Rightarrow> Request \<Rightarrow> string" where
  "then_header now r = Format_RFC1123Z (then_time granularity_in_seconds now (be_static r))"

definition etag_enc :: "Time \<Rightarrow> Request \<Rightarrow> string" where
  \<open>etag_enc now r =
     ''"'' @ Format_etag (then_time granularity_in_seconds now (be_static r)) @ ''"''\<close>

text \<open>
  The two validation blocks of the handler. \<open>Inl\<close> is the response of a \<^verbatim>\<open>respond\<close>
  followed by \<^verbatim>\<open>return\<close>; \<open>Inr\<close> is the map \<^verbatim>\<open>headers\<close> with which the handler goes on.
\<close>

definition validate :: "Time \<Rightarrow> Request \<Rightarrow> Response + (string \<times> string) list" where
  \<open>validate now r =
     (let etag_if_match = Get (Header r) ''If-Match'';
          etag_if_none_match = Get (Header r) ''If-None-Match'';
          unmod_since = Get (Header r) ''If-Unmodified-Since'';
          mod_since = Get (Header r) ''If-Modified-Since''
      in
        if use_etags r \<and> 0 < length etag_if_match \<and>
           \<not> (etag_enc now r = ''"*"'' \<or> etag_enc now r = etag_if_match)
        then Inl (Error [] ''If-Match failed: ETag did not match'' 412)
        else if use_etags r \<and> 0 < length etag_if_none_match \<and>
           (etag_enc now r = ''"*"'' \<or> etag_enc now r = etag_if_none_match)
        then Inl (Error [] ''Content matches on If-None-Match'' 304)
        else if use_lastmod r \<and> 0 < length unmod_since \<and> unmod_since \<noteq> then_header now r
        then Inl (Error [] ''Document has been modified'' 412)
        else if use_lastmod r \<and> 0 < length mod_since \<and> mod_since \<noteq> then_header now r
        then Inl (Error [] ''Document has not been modified'' 304)
        else Inr ((if use_etags r then [(''E-Tag'', etag_enc now r)] else []) @
                  (if use_lastmod r then [(''Last-Modified'', then_header now r)] else [])))\<close>

text \<open>
  One line of the echo of the request headers, \<^verbatim>\<open>r.Header[key][0]\<close> in it: indexing an
  empty list of values panics, and there is no line.
\<close>

definition header_line :: "Header \<Rightarrow> string \<Rightarrow> string option" where
  "header_line h key =
     (case map_of h key of
        Some (v # vs) \<Rightarrow> Some (''  '' @ key @ '': '' @ v @ ''\<newline>'')
      | _ \<Rightarrow> None)"

text \<open>The loop over the sorted keys of the request headers.\<close>

fun write_request_headers :: "ByteWriter \<Rightarrow> Header \<Rightarrow> string list \<Rightarrow> panic + ByteWriter" where
  "write_request_headers b h [] = Inr b"
| "write_request_headers b h (key # keys) =
     (case header_line h key of
        None \<Rightarrow> Inl IndexOutOfRange
      | Some line \<Rightarrow>
          (case Write b line of
             Inl e \<Rightarrow> Inl e
           | Inr b' \<Rightarrow> write_request_headers b' h keys))"

definition sorted_keys :: "Header \<Rightarrow> string list" where
  "sorted_keys h = sort (remdups (map fst h))"

text \<open>The buffered content, from \<^verbatim>\<open>b := Buffy()\<close> to \<^verbatim>\<open>b.AsString()\<close>.\<close>

definition write_content :: "Time \<Rightarrow> Request \<Rightarrow> panic + string" where
  "write_content now r =
     (case Write Buffy (''Content date:'' @ '' '' @ then_header now r @ ''\<newline>'') of
        Inl e \<Rightarrow> Inl e
      | Inr b1 \<Rightarrow>
     (case Write b1 (''Generated:   '' @ '' '' @ Format_RFC1123Z now @ ''\<newline>'') of
        Inl e \<Rightarrow> Inl e
      | Inr b2 \<Rightarrow>
     (case (if print_headers r then
              (case Write b2 ''\<newline>REQUEST HEADERS:\<newline>'' of
                 Inl e \<Rightarrow> Inl e
               | Inr b3 \<Rightarrow> write_request_headers b3 (Header r) (sorted_keys (Header r)))
            else Inr b2) of
        Inl e \<Rightarrow> Inl e
      | Inr b4 \<Rightarrow> AsString b4)))"

definition handle :: "Time \<Rightarrow> Request \<Rightarrow> panic + Response" where
  "handle now r =
     (if Method r \<noteq> ''GET'' then Inr (Error [] ''Only GET requests supported'' 405)
      else
        case validate now r of
          Inl response \<Rightarrow> Inr response
        | Inr headers \<Rightarrow>
            let w = Set_header [] ''Content-Type'' ''text/plain; charset=utf-8''
            in
              if Path r = ''/''
              then Inr \<lparr>StatusCode = 200,
                        RespHeader = Set_header w ''Content-Length'' (Itoa (length help_text)),
                        Body = help_text\<rparr>
              else
                (case write_content now r of
                   Inl e \<Rightarrow> Inl e
                 | Inr content \<Rightarrow>
                     Inr \<lparr>StatusCode = 200,
                          RespHeader =
                            Set_header (foldl (\<lambda>wh (key, val). Set_header wh key val) w headers)
                              ''Content-Length'' (Itoa (length content)),
                          Body = content\<rparr>))"

text \<open>The status code a client reads, if the handler answers at all.\<close>

definition status_of :: "panic + Response \<Rightarrow> nat option" where
  "status_of res = (case res of Inl e \<Rightarrow> None | Inr response \<Rightarrow> Some (StatusCode response))"

text \<open>
  The writes that make the content of a request, in their order, when every header of
  the request has a value to echo.
\<close>

definition content_writes :: "Time \<Rightarrow> Request \<Rightarrow> string list option" where
  "content_writes now r =
     (let first = [''Content date:'' @ '' '' @ then_header now r @ ''\<newline>'',
                   ''Generated:   '' @ '' '' @ Format_RFC1123Z now @ ''\<newline>'']
      in if print_headers r then
           (case those (map (header_line (Header r)) (sorted_keys (Header r))) of
              None \<Rightarrow> None
            | Some ls \<Rightarrow> Some (first @ [''\<newline>REQUEST HEADERS:\<newline>''] @ ls))
         else Some first)"

text \<open>A reading of the clock as \<^verbatim>\<open>time.Now()\<close> gives it, in a year of four digits.\<close>

definition valid_clock :: "Time \<Rightarrow> bool" where
  "valid_clock t =
     (0 \<le> Year t \<and> Year t \<le> 9999 \<and> 1 \<le> Month t \<and> Month t \<le> 12 \<and>
      1 \<le> Day t \<and> Day t \<le> 31 \<and> Hour t < 24 \<and> Minute t < 60 \<and> Second t < 60 \<and>
      Nanosecond t < 1000000000)"

section \<open>The test client (validserver\_test.go)\<close>

text \<open>
  \<^verbatim>\<open>MakeReq\<close>: a GET request for the path, with no header of its own. The headers that
  the transport adds on the way (the user agent, the accepted encodings) are left out;
  the handler reads them only on a path that echoes the headers.
\<close>

definition MakeReq :: "string \<Rightarrow> Request" where
  "MakeReq url = \<lparr>Method = ''GET'', Path = url, Header = []\<rparr>"

text \<open>
  The two validators build the requests \<^verbatim>\<open>modded\<close> and \<^verbatim>\<open>same\<close> from the path of the first
  request and the headers of its response.
\<close>

definition ETagV_Build :: "string \<Rightarrow> Response \<Rightarrow> Request \<times> Request" where
  "ETagV_Build path r =
     (let modded = MakeReq path; same = MakeReq path
      in (modded\<lparr>Header := Add (Header modded) ''If-None-Match'' (Get (RespHeader r) ''ETag'')\<rparr>,
          same\<lparr>Header := Add (Header same) ''If-Match'' (Get (RespHeader r) ''ETag'')\<rparr>))"

definition DateModV_Build :: "string \<Rightarrow> Response \<Rightarrow> Request \<times> Request" where
  "DateModV_Build path r =
     (let modded = MakeReq path; same = MakeReq path
      in (modded\<lparr>Header := Add (Header modded) ''If-Modified-Since''
                               (Get (RespHeader r) ''Last-Modified'')\<rparr>,
          same\<lparr>Header := Add (Header same) ''If-Unmodified-Since''
                             (Get (RespHeader r) ''Last-Modified'')\<rparr>))"

text \<open>\<^verbatim>\<open>ClockU.Update\<close> sends the request of the path again with the method PUT.\<close>

definition ClockU_request :: "string \<Rightarrow> Request" where
  "ClockU_request path = (MakeReq path)\<lparr>Method := ''PUT''\<rparr>"

section \<open>Properties\<close>

subsection \<open>Header keys, error responses and the writer\<close>

lemma canonical_If_Match: "CanonicalMIMEHeaderKey ''If-Match'' = ''If-Match''"
  by code_simp
lemma canonical_If_None_Match: "CanonicalMIMEHeaderKey ''If-None-Match'' = ''If-None-Match''"
  by code_simp
lemma canonical_If_Unmodified_Since:
  "CanonicalMIMEHeaderKey ''If-Unmodified-Since'' = ''If-Unmodified-Since''"
  by code_simp
lemma canonical_If_Modified_Since:
  "CanonicalMIMEHeaderKey ''If-Modified-Since'' = ''If-Modified-Since''"
  by code_simp
lemma canonical_Content_Type: "CanonicalMIMEHeaderKey ''Content-Type'' = ''Content-Type''"
  by code_simp
lemma canonical_Content_Length: "CanonicalMIMEHeaderKey ''Content-Length'' = ''Content-Length''"
  by code_simp
lemma canonical_X_Content_Type_Options:
  "CanonicalMIMEHeaderKey ''X-Content-Type-Options'' = ''X-Content-Type-Options''"
  by code_simp
lemma canonical_E_Tag: "CanonicalMIMEHeaderKey ''E-Tag'' = ''E-Tag''"
  by code_simp
lemma canonical_ETag: "CanonicalMIMEHeaderKey ''ETag'' = ''Etag''"
  by code_simp
lemma canonical_Last_Modified: "CanonicalMIMEHeaderKey ''Last-Modified'' = ''Last-Modified''"
  by code_simp

lemmas canonical_keys =
  canonical_If_Match canonical_If_None_Match canonical_If_Unmodified_Since
  canonical_If_Modified_Since canonical_Content_Type canonical_Content_Length
  canonical_X_Content_Type_Options canonical_E_Tag canonical_ETag canonical_Last_Modified

lemma Error_value:
  "Error [] message code =
     \<lparr>StatusCode = code,
      RespHeader = [(''Content-Type'', [''text/plain; charset=utf-8'']),
                    (''X-Content-Type-Options'', [''nosniff''])],
      Body = message @ ''\<newline>''\<rparr>"
  by (simp add: Error_def Set_header_def Del_def canonical_keys)

lemma handle_not_GET:
  "Method r \<noteq> ''GET'' \<Longrightarrow> handle now r = Inr (Error [] ''Only GET requests supported'' 405)"
  by (simp add: handle_def)

lemma Write_fits:
  "pos b + length bs \<le> length (buf b) \<Longrightarrow>
   Write b bs = Inr \<lparr>buf = take (pos b) (buf b) @ bs @ drop (pos b + length bs) (buf b),
                     pos = pos b + length bs\<rparr>"
  by (simp add: Write_def Let_def)

lemma Write_overflow:
  "length (buf b) < pos b + length bs \<Longrightarrow> Write b bs = Inl SliceBoundsOutOfRange"
  by (simp add: Write_def Let_def)

lemma Write_all_fits:
  "pos b + sum_list (map length ws) \<le> length (buf b) \<Longrightarrow>
   \<exists>b'. Write_all b ws = Inr b' \<and> pos b' = pos b + sum_list (map length ws) \<and>
        length (buf b') = length (buf b) \<and>
        take (pos b') (buf b') = take (pos b) (buf b) @ concat ws"
proof (induction ws arbitrary: b)
  case Nil
  then show ?case by simp
next
  case (Cons bs ws)
  let ?b1 = "\<lparr>buf = take (pos b) (buf b) @ bs @ drop (pos b + length bs) (buf b),
              pos = pos b + length bs\<rparr>"
  from Cons.prems have fits: "pos b + length bs \<le> length (buf b)" by simp
  then have w: "Write b bs = Inr ?b1" by (rule Write_fits)
  have len: "length (buf ?b1) = length (buf b)" using fits by simp
  have tk: "take (pos ?b1) (buf ?b1) = take (pos b) (buf b) @ bs" using fits by simp
  have "pos ?b1 + sum_list (map length ws) \<le> length (buf ?b1)"
    using Cons.prems len by simp
  from Cons.IH [OF this] obtain b' where
    b': "Write_all ?b1 ws = Inr b'" "pos b' = pos ?b1 + sum_list (map length ws)"
        "length (buf b') = length (buf ?b1)"
        "take (pos b') (buf b') = take (pos ?b1) (buf ?b1) @ concat ws"
    by blast
  have "Write_all b (bs # ws) = Inr b'" using w b'(1) by simp
  moreover have "pos b' = pos b + sum_list (map length (bs # ws))" using b'(2) by simp
  moreover have "length (buf b') = length (buf b)" using b'(3) len by simp
  moreover have "take (pos b') (buf b') = take (pos b) (buf b) @ concat (bs # ws)"
    using b'(4) tk by simp
  ultimately show ?case by blast
qed

lemma Write_all_overflow:
  "pos b \<le> length (buf b) \<Longrightarrow> length (buf b) < pos b + sum_list (map length ws) \<Longrightarrow>
   Write_all b ws = Inl SliceBoundsOutOfRange"
proof (induction ws arbitrary: b)
  case Nil
  then show ?case by simp
next
  case (Cons bs ws)
  show ?case
  proof (cases "length (buf b) < pos b + length bs")
    case True
    then show ?thesis by (simp add: Write_overflow)
  next
    case False
    let ?b1 = "\<lparr>buf = take (pos b) (buf b) @ bs @ drop (pos b + length bs) (buf b),
                pos = pos b + length bs\<rparr>"
    from False have fits: "pos b + length bs \<le> length (buf b)" by simp
    then have w: "Write b bs = Inr ?b1" by (rule Write_fits)
    have len: "length (buf ?b1) = length (buf b)" using fits by simp
    have "pos ?b1 \<le> length (buf ?b1)" using fits len by simp
    moreover have "length (buf ?b1) < pos ?b1 + sum_list (map length ws)"
      using Cons.prems(2) len by simp
    ultimately have "Write_all ?b1 ws = Inl SliceBoundsOutOfRange" by (rule Cons.IH)
    then show ?thesis using w by simp
  qed
qed

lemma Buffy_pos: "pos Buffy = 0" and Buffy_length: "length (buf Buffy) = 4096"
  by (simp_all add: Buffy_def)

lemma write_request_headers_Write_all:
  "those (map (header_line h) keys) = Some ls \<Longrightarrow>
   write_request_headers b h keys = Write_all b ls"
proof (induction keys arbitrary: b ls)
  case Nil
  then show ?case by simp
next
  case (Cons key keys)
  from Cons.prems obtain l ls' where
    l: "header_line h key = Some l" and ls': "those (map (header_line h) keys) = Some ls'"
    and ls: "ls = l # ls'"
    by (auto split: option.splits)
  show ?case
    using l ls Cons.IH [OF ls'] by (simp split: sum.splits)
qed

lemma write_content_Write_all:
  "content_writes now r = Some ws \<Longrightarrow>
   write_content now r = (case Write_all Buffy ws of Inl e \<Rightarrow> Inl e | Inr b \<Rightarrow> AsString b)"
  by (auto simp: content_writes_def write_content_def Let_def write_request_headers_Write_all
           split: if_splits option.splits sum.splits)

lemma write_content_fits:
  assumes "content_writes now r = Some ws" and "sum_list (map length ws) \<le> 4096"
  shows "write_content now r = Inr (concat ws)"
proof -
  have "pos Buffy + sum_list (map length ws) \<le> length (buf Buffy)"
    using assms(2) by (simp add: Buffy_pos Buffy_length)
  from Write_all_fits [OF this] obtain b' where
    b': "Write_all Buffy ws = Inr b'" "pos b' = pos Buffy + sum_list (map length ws)"
        "length (buf b') = length (buf Buffy)"
        "take (pos b') (buf b') = take (pos Buffy) (buf Buffy) @ concat ws"
    by blast
  have "AsString b' = Inr (concat ws)"
    using b'(2,3,4) assms(2) by (simp add: AsString_def Buffy_pos Buffy_length)
  then show ?thesis
    using b'(1) by (simp add: write_content_Write_all [OF assms(1)])
qed

lemma write_content_overflow:
  assumes "content_writes now r = Some ws" and "4096 < sum_list (map length ws)"
  shows "write_content now r = Inl SliceBoundsOutOfRange"
proof -
  have "Write_all Buffy ws = Inl SliceBoundsOutOfRange"
    by (rule Write_all_overflow) (simp_all add: Buffy_pos Buffy_length assms(2))
  then show ?thesis
    by (simp add: write_content_Write_all [OF assms(1)])
qed

subsection \<open>Renderings of the dates used as examples\<close>

lemma then_static: "then_time g now True = Date 2012 12 20 20 12 12 0"
  by (simp add: then_time_def)

lemma static_header: "Format_RFC1123Z (Date 2012 12 20 20 12 12 0) = ''Thu, 20 Dec 2012 20:12:12 +0000''"
  by code_simp

lemma static_etag: "Format_etag (Date 2012 12 20 20 12 12 0) = ''2012-12-20,20:12:12''"
  by code_simp

lemma now_header_example:
  "Format_RFC1123Z (Date 2026 11 3 9 5 47 123) = ''Tue, 03 Nov 2026 09:05:47 +0000''"
  by code_simp

subsection \<open>Lengths of the renderings, and the content of a response\<close>

lemma decimal_nonempty: "0 < length (decimal n)"
  by (subst decimal.simps) simp

lemma length_decimal: "0 < k \<Longrightarrow> n < 10 ^ k \<Longrightarrow> length (decimal n) \<le> k"
proof (induction n arbitrary: k rule: decimal.induct)
  case (1 n)
  show ?case
  proof (cases "n < 10")
    case True
    then show ?thesis using "1.prems" by (subst decimal.simps) simp
  next
    case False
    then obtain k' where k: "k = Suc k'" "0 < k'"
      using "1.prems" by (cases k; cases "k - 1") auto
    then have "n div 10 < 10 ^ k'" using "1.prems" by (simp add: less_mult_imp_div_less mult.commute)
    from "1.IH" [OF False k(2) this] show ?thesis
      using False k by (subst decimal.simps) simp
  qed
qed

lemma length_appendInt2: "n < 100 \<Longrightarrow> length (appendInt (int n) 2) = 2"
  using length_decimal [of 2 n] decimal_nonempty [of n]
  by (simp add: appendInt_def Let_def)

lemma length_appendInt4: "0 \<le> y \<Longrightarrow> y \<le> 9999 \<Longrightarrow> length (appendInt y 4) = 4"
  using length_decimal [of 4 "nat \<bar>y\<bar>"] decimal_nonempty [of "nat \<bar>y\<bar>"]
  by (simp add: appendInt_def Let_def)

lemma length_shortDayNames: "i < 7 \<Longrightarrow> length (shortDayNames ! i) = 3"
proof -
  assume "i < 7"
  then have "shortDayNames ! i \<in> set shortDayNames"
    by (intro nth_mem) (simp add: shortDayNames_def)
  moreover have "\<forall>s \<in> set shortDayNames. length s = 3"
    by (simp add: shortDayNames_def)
  ultimately show ?thesis by blast
qed

lemma length_shortMonthNames: "i < 12 \<Longrightarrow> length (shortMonthNames ! i) = 3"
proof -
  assume "i < 12"
  then have "shortMonthNames ! i \<in> set shortMonthNames"
    by (intro nth_mem) (simp add: shortMonthNames_def)
  moreover have "\<forall>s \<in> set shortMonthNames. length s = 3"
    by (simp add: shortMonthNames_def)
  ultimately show ?thesis by blast
qed

lemma length_Format_RFC1123Z: "valid_clock t \<Longrightarrow> length (Format_RFC1123Z t) = 31"
  by (simp add: valid_clock_def Format_RFC1123Z_def length_appendInt2 length_appendInt4
      length_shortDayNames length_shortMonthNames)

lemma valid_clock_then_time: "valid_clock now \<Longrightarrow> valid_clock (then_time G now s)"
proof (cases s)
  case True
  then show ?thesis by (simp add: valid_clock_def then_time_def Date_def)
next
  case False
  assume v: "valid_clock now"
  have le: "(Second now div G) * G \<le> Second now" by simp
  have "Second now < 60" using v by (simp add: valid_clock_def)
  with le have "(Second now div G) * G < 60" by (rule le_less_trans)
  then show ?thesis using v False by (simp add: valid_clock_def then_time_def Date_def)
qed

lemma length_then_header: "valid_clock now \<Longrightarrow> length (then_header now r) = 31"
  by (simp add: then_header_def length_Format_RFC1123Z valid_clock_then_time)

lemma Itoa_92: "Itoa 92 = ''92''"
  by code_simp

lemma Itoa_553: "Itoa 553 = ''553''"
  by code_simp

lemma length_help_text: "length help_text = 553"
  by (simp add: help_text_def)

lemma Set_header_Content_Type:
  "Set_header [] ''Content-Type'' v = [(''Content-Type'', [v])]"
  by (simp add: Set_header_def canonical_keys)

lemma handle_content:
  assumes "Method r = ''GET''" and "validate now r = Inr hs" and "Path r \<noteq> ''/''"
    and "content_writes now r = Some ws" and "sum_list (map length ws) \<le> 4096"
  shows "handle now r =
     Inr \<lparr>StatusCode = 200,
          RespHeader =
            Set_header (foldl (\<lambda>wh (key, val). Set_header wh key val)
                          [(''Content-Type'', [''text/plain; charset=utf-8''])] hs)
              ''Content-Length'' (Itoa (length (concat ws))),
          Body = concat ws\<rparr>"
  using assms(1,2,3) write_content_fits [OF assms(4,5)]
  by (simp add: handle_def Set_header_Content_Type)

lemma etag_enc_not_wildcard: \<open>etag_enc now r \<noteq> ''"*"''\<close>
proof
  assume \<open>etag_enc now r = ''"*"''\<close>
  then have "length (etag_enc now r) = 3" by simp
  then show False by (simp add: etag_enc_def Format_etag_def)
qed

lemma then_header_static:
  "be_static r \<Longrightarrow> then_header now r = ''Thu, 20 Dec 2012 20:12:12 +0000''"
  by (simp add: then_header_def then_static static_header)

lemma etag_enc_static:
  \<open>be_static r \<Longrightarrow> etag_enc now r = ''"2012-12-20,20:12:12"''\<close>
  by (simp add: etag_enc_def then_static static_etag)

lemma then_header_example:
  "\<not> be_static r \<Longrightarrow>
   then_header (Date 2026 11 3 9 5 47 123) r = ''Tue, 03 Nov 2026 09:05:45 +0000''"
proof -
  have "Format_RFC1123Z (Date 2026 11 3 9 5 45 0) = ''Tue, 03 Nov 2026 09:05:45 +0000''"
    by code_simp
  moreover have "then_time granularity_in_seconds (Date 2026 11 3 9 5 47 123) False =
      Date 2026 11 3 9 5 45 0"
    by (simp add: then_time_def granularity_in_seconds_def Date_def)
  moreover assume "\<not> be_static r"
  ultimately show ?thesis by (simp add: then_header_def)
qed

lemma validate_no_channel: "\<not> use_etags r \<Longrightarrow> \<not> use_lastmod r \<Longrightarrow> validate now r = Inr []"
  by (simp add: validate_def)

lemma content_writes_plain:
  "\<not> print_headers r \<Longrightarrow>
   content_writes now r =
     Some [''Content date: '' @ then_header now r @ ''\<newline>'',
           ''Generated:    '' @ Format_RFC1123Z now @ ''\<newline>'']"
  by (simp add: content_writes_def)

lemma valid_clock_example: "valid_clock (Date 2026 11 3 9 5 47 123)"
  by (simp add: valid_clock_def Date_def)

lemma handle_plain:
  assumes "Method r = ''GET''" and "\<not> print_headers r" and "validate now r = Inr hs"
    and "Path r \<noteq> ''/''" and "valid_clock now"
  shows "handle now r =
     Inr \<lparr>StatusCode = 200,
          RespHeader =
            Set_header (foldl (\<lambda>wh (key, val). Set_header wh key val)
                          [(''Content-Type'', [''text/plain; charset=utf-8''])] hs)
              ''Content-Length'' ''92'',
          Body = ''Content date: '' @ then_header now r @ ''\<newline>'' @
                 ''Generated:    '' @ Format_RFC1123Z now @ ''\<newline>''\<rparr>"
proof -
  let ?ws = "[''Content date: '' @ then_header now r @ ''\<newline>'',
              ''Generated:    '' @ Format_RFC1123Z now @ ''\<newline>'']"
  have len: "sum_list (map length ?ws) = 92"
    using assms(5) by (simp add: length_then_header length_Format_RFC1123Z)
  have cw: "content_writes now r = Some ?ws"
    using assms(2) by (rule content_writes_plain)
  have "length (concat ?ws) = 92"
    using len by (simp add: length_concat)
  moreover have "sum_list (map length ?ws) \<le> 4096" using len by simp
  ultimately show ?thesis
    using handle_content [OF assms(1) assms(3) assms(4) cw] by (simp add: Itoa_92)
qed

subsection \<open>The validation blocks\<close>

lemma handle_GET_stopped:
  "Method r = ''GET'' \<Longrightarrow> validate now r = Inl response \<Longrightarrow> handle now r = Inr response"
  by (simp add: handle_def)

lemma validate_If_Match_failed:
  assumes "use_etags r" and "Get (Header r) ''If-Match'' \<noteq> []"
    and "Get (Header r) ''If-Match'' \<noteq> etag_enc now r"
  shows "validate now r = Inl (Error [] ''If-Match failed: ETag did not match'' 412)"
proof -
  have "etag_enc now r \<noteq> Get (Header r) ''If-Match''" using assms(3) by (rule not_sym)
  then show ?thesis
    using assms(1,2) etag_enc_not_wildcard [of now r] by (simp add: validate_def Let_def)
qed

lemma validate_If_None_Match_matched:
  assumes "use_etags r"
    and "Get (Header r) ''If-Match'' = [] \<or> Get (Header r) ''If-Match'' = etag_enc now r"
    and "Get (Header r) ''If-None-Match'' = etag_enc now r"
  shows "validate now r = Inl (Error [] ''Content matches on If-None-Match'' 304)"
proof -
  have ne: "etag_enc now r \<noteq> []" by (simp add: etag_enc_def)
  from assms(2) show ?thesis
  proof
    assume "Get (Header r) ''If-Match'' = []"
    then show ?thesis using assms(1,3) ne by (simp add: validate_def Let_def)
  next
    assume "Get (Header r) ''If-Match'' = etag_enc now r"
    then show ?thesis using assms(1,3) ne by (simp add: validate_def Let_def)
  qed
qed


lemma Get_examples:
  "Get [(''If-Unmodified-Since'', [u]), (''If-Modified-Since'', [m])] ''If-Unmodified-Since'' = u"
  "Get [(''If-Unmodified-Since'', [u]), (''If-Modified-Since'', [m])] ''If-Modified-Since'' = m"
  "Get [(''If-Modified-Since'', [m])] ''If-Unmodified-Since'' = []"
  "Get [(''If-Modified-Since'', [m])] ''If-Modified-Since'' = m"
  "Get [(''If-Modified-Since'', [m])] ''If-Match'' = []"
  "Get [(''If-Modified-Since'', [m])] ''If-None-Match'' = []"
  "Get [(''If-Match'', [m])] ''If-Match'' = m"
  "Get [(''If-None-Match'', [m])] ''If-Match'' = []"
  "Get [(''If-None-Match'', [m])] ''If-None-Match'' = m"
  by (simp_all add: Get_def canonical_keys)

subsection \<open>Requests that are not GET\<close>

text \<open>
  C6: every request whose method is not GET receives status 405, whatever its path and
  its precondition headers, and neither validation nor content generation takes place for
  it: the response is the fixed error response, with no validator header and none of
  the content lines, and it depends neither on the clock nor on the path or the headers.
\<close>

theorem non_GET_gets_405:
  "Method r \<noteq> ''GET'' \<Longrightarrow>
   handle now r =
     Inr \<lparr>StatusCode = 405,
          RespHeader = [(''Content-Type'', [''text/plain; charset=utf-8'']),
                        (''X-Content-Type-Options'', [''nosniff''])],
          Body = ''Only GET requests supported\<newline>''\<rparr>"
  by (simp add: handle_not_GET Error_value)

theorem non_GET_gets_405_witness:
  "Method \<lparr>Method = ''DELETE'', Path = ''/etag/lastmod/x/'',
           Header = [(''If-Match'', [''*'']), (''If-Modified-Since'', [''yesterday''])]\<rparr> \<noteq> ''GET'' \<and>
   handle (Date 2026 11 3 9 5 47 123)
     \<lparr>Method = ''DELETE'', Path = ''/etag/lastmod/x/'',
      Header = [(''If-Match'', [''*'']), (''If-Modified-Since'', [''yesterday''])]\<rparr> =
     Inr \<lparr>StatusCode = 405,
          RespHeader = [(''Content-Type'', [''text/plain; charset=utf-8'']),
                        (''X-Content-Type-Options'', [''nosniff''])],
          Body = ''Only GET requests supported\<newline>''\<rparr>"
  using non_GET_gets_405 [of "\<lparr>Method = ''DELETE'', Path = ''/etag/lastmod/x/'',
      Header = [(''If-Match'', [''*'']), (''If-Modified-Since'', [''yesterday''])]\<rparr>"
      "Date 2026 11 3 9 5 47 123"]
  by simp

text \<open>
  C4, as stated, fails: the request of \<^verbatim>\<open>ClockU.Update\<close>, a PUT for the path of the
  scenario, is not answered with status 204.
\<close>

theorem PUT_not_204:
  "status_of (handle (Date 2026 11 3 9 5 47 123) (ClockU_request ''/clock/etag/functest/''))
     \<noteq> Some 204"
  by (simp add: handle_not_GET ClockU_request_def MakeReq_def status_of_def Error_value)

text \<open>
  C4, amended: a PUT request returns status 405, and its body is the message that only GET
  requests are supported.
\<close>

theorem PUT_gets_405:
  "handle now (r\<lparr>Method := ''PUT''\<rparr>) =
     Inr \<lparr>StatusCode = 405,
          RespHeader = [(''Content-Type'', [''text/plain; charset=utf-8'']),
                        (''X-Content-Type-Options'', [''nosniff''])],
          Body = ''Only GET requests supported\<newline>''\<rparr>"
  by (simp add: handle_not_GET Error_value)

theorem PUT_gets_405_witness:
  "handle (Date 2026 11 3 9 5 47 123) (ClockU_request ''/clock/etag/functest/'') =
     Inr \<lparr>StatusCode = 405,
          RespHeader = [(''Content-Type'', [''text/plain; charset=utf-8'']),
                        (''X-Content-Type-Options'', [''nosniff''])],
          Body = ''Only GET requests supported\<newline>''\<rparr>"
  using PUT_gets_405 [of "Date 2026 11 3 9 5 47 123" "MakeReq ''/clock/etag/functest/''"]
  by (simp add: ClockU_request_def)

subsection \<open>The 4096-byte buffer\<close>

text \<open>
  C10: the writer of the response body has a fixed buffer of 4096 bytes. When the writes
  of one response have at most 4096 bytes together, \<^verbatim>\<open>AsString\<close> returns exactly their
  concatenation. When they have more, a write slices the buffer out of range: it panics,
  and neither grows the buffer nor returns an error. So does the handler, on a request
  that passes validation and whose content has more than 4096 bytes, as on a path that
  echoes the headers of a request with large headers.
\<close>

theorem ByteWriter_4096:
  "(sum_list (map length ws) \<le> 4096 \<longrightarrow>
      (case Write_all Buffy ws of Inl e \<Rightarrow> Inl e | Inr b \<Rightarrow> AsString b) = Inr (concat ws)) \<and>
   (4096 < sum_list (map length ws) \<longrightarrow> Write_all Buffy ws = Inl SliceBoundsOutOfRange) \<and>
   (Method r = ''GET'' \<and> validate now r = Inr hs \<and> Path r \<noteq> ''/'' \<and>
    content_writes now r = Some cw \<and> 4096 < sum_list (map length cw) \<longrightarrow>
      handle now r = Inl SliceBoundsOutOfRange)"
proof (intro conjI impI)
  assume fits: "sum_list (map length ws) \<le> 4096"
  then have "pos Buffy + sum_list (map length ws) \<le> length (buf Buffy)"
    by (simp add: Buffy_pos Buffy_length)
  from Write_all_fits [OF this] obtain b' where
    b': "Write_all Buffy ws = Inr b'" "pos b' = pos Buffy + sum_list (map length ws)"
        "length (buf b') = length (buf Buffy)"
        "take (pos b') (buf b') = take (pos Buffy) (buf Buffy) @ concat ws"
    by blast
  have "AsString b' = Inr (concat ws)"
    using b'(2,3,4) fits by (simp add: AsString_def Buffy_pos Buffy_length)
  then show "(case Write_all Buffy ws of Inl e \<Rightarrow> Inl e | Inr b \<Rightarrow> AsString b) = Inr (concat ws)"
    using b'(1) by simp
next
  assume "4096 < sum_list (map length ws)"
  then show "Write_all Buffy ws = Inl SliceBoundsOutOfRange"
    by (intro Write_all_overflow) (simp_all add: Buffy_pos Buffy_length)
next
  assume a: "Method r = ''GET'' \<and> validate now r = Inr hs \<and> Path r \<noteq> ''/'' \<and>
    content_writes now r = Some cw \<and> 4096 < sum_list (map length cw)"
  then have "write_content now r = Inl SliceBoundsOutOfRange"
    by (intro write_content_overflow [of now r cw]) simp_all
  then show "handle now r = Inl SliceBoundsOutOfRange"
    using a by (simp add: handle_def)
qed

theorem ByteWriter_4096_witness:
  "sum_list (map length [replicate 4000 (CHR ''a''), replicate 96 (CHR ''b'')]) \<le> 4096 \<and>
   (case Write_all Buffy [replicate 4000 (CHR ''a''), replicate 96 (CHR ''b'')] of
      Inl e \<Rightarrow> Inl e | Inr b \<Rightarrow> AsString b) =
     Inr (concat [replicate 4000 (CHR ''a''), replicate 96 (CHR ''b'')]) \<and>
   4096 < sum_list (map length [replicate 4000 (CHR ''a''), replicate 97 (CHR ''b'')]) \<and>
   Write_all Buffy [replicate 4000 (CHR ''a''), replicate 97 (CHR ''b'')] =
     Inl SliceBoundsOutOfRange \<and>
   handle (Date 2026 11 3 9 5 47 123)
     \<lparr>Method = ''GET'', Path = ''/static/headers/x/'',
      Header = [(''X-Big'', [replicate 4000 (CHR ''a'')])]\<rparr> = Inl SliceBoundsOutOfRange"
proof -
  let ?now = "Date 2026 11 3 9 5 47 123"
  let ?r = "\<lparr>Method = ''GET'', Path = ''/static/headers/x/'',
      Header = [(''X-Big'', [replicate 4000 (CHR ''a'')])]\<rparr>"
  let ?cw = "[''Content date: Thu, 20 Dec 2012 20:12:12 +0000\<newline>'',
              ''Generated:    Tue, 03 Nov 2026 09:05:47 +0000\<newline>'',
              ''\<newline>REQUEST HEADERS:\<newline>'',
              ''  X-Big: '' @ replicate 4000 (CHR ''a'') @ ''\<newline>'']"
  have st: "be_static ?r" "print_headers ?r" "\<not> use_etags ?r" "\<not> use_lastmod ?r"
    by (simp_all add: be_static_def print_headers_def use_etags_def use_lastmod_def Index_def)
  have v: "validate ?now ?r = Inr []"
    using st by (simp add: validate_def)
  have cw: "content_writes ?now ?r = Some ?cw"
    using st by (simp add: content_writes_def then_header_def then_static static_header
        now_header_example sorted_keys_def header_line_def)
  have big: "4096 < sum_list (map length ?cw)" by simp
  show ?thesis
    using ByteWriter_4096 [of "[replicate 4000 (CHR ''a''), replicate 96 (CHR ''b'')]" ?r ?now "[]" ?cw]
      ByteWriter_4096 [of "[replicate 4000 (CHR ''a''), replicate 97 (CHR ''b'')]" ?r ?now "[]" ?cw]
      v cw big
    by simp
qed

subsection \<open>The version clock\<close>

text \<open>
  C9: for every granularity G and two times in the same bucket (equal up to the minute,
  with equal quotients of the seconds by G), the version clock yields the same version.
  The truncation lowers only the seconds, to the nearest multiple of G below them, and
  leaves the larger fields as they are. For a static resource the version is the fixed
  date 2012-12-20 20:12:12, whatever the time.
\<close>

theorem version_clock_buckets:
  "0 < G \<Longrightarrow>
   (Year t1 = Year t2 \<and> Month t1 = Month t2 \<and> Day t1 = Day t2 \<and> Hour t1 = Hour t2 \<and>
    Minute t1 = Minute t2 \<and> Second t1 div G = Second t2 div G \<longrightarrow>
      then_time G t1 False = then_time G t2 False) \<and>
   (Year (then_time G t False) = Year t \<and> Month (then_time G t False) = Month t \<and>
    Day (then_time G t False) = Day t \<and> Hour (then_time G t False) = Hour t \<and>
    Minute (then_time G t False) = Minute t \<and>
    Second (then_time G t False) = (Second t div G) * G \<and>
    G dvd Second (then_time G t False) \<and>
    Second (then_time G t False) \<le> Second t \<and>
    Second t < Second (then_time G t False) + G) \<and>
   then_time G t True = Date 2012 12 20 20 12 12 0"
proof (intro conjI impI)
  assume "0 < G"
  then show "Second t < Second (then_time G t False) + G"
    using dividend_less_div_times [of G "Second t"]
    by (simp add: then_time_def Date_def mult.commute)
qed (simp_all add: then_time_def Date_def)

theorem version_clock_buckets_witness:
  "(0::nat) < 15 \<and>
   Second (Date 2026 11 3 9 5 47 123) div 15 = Second (Date 2026 11 3 9 5 59 999) div 15 \<and>
   then_time 15 (Date 2026 11 3 9 5 47 123) False = Date 2026 11 3 9 5 45 0 \<and>
   then_time 15 (Date 2026 11 3 9 5 59 999) False = Date 2026 11 3 9 5 45 0 \<and>
   then_time 15 (Date 2026 11 3 9 5 47 123) True = Date 2012 12 20 20 12 12 0"
  using version_clock_buckets [of 15 "Date 2026 11 3 9 5 47 123" "Date 2026 11 3 9 5 59 999"
      "Date 2026 11 3 9 5 47 123"]
  by (simp add: Date_def then_time_def)

subsection \<open>Paths without a flag\<close>

text \<open>
  C5, as stated, fails: a GET for the path \<^verbatim>\<open>/nope/\<close>, which carries none of the
  flags, is not answered with status 410.
\<close>

theorem unknown_path_not_410:
  "status_of (handle (Date 2026 11 3 9 5 47 123) (MakeReq ''/nope/'')) \<noteq> Some 410"
proof -
  let ?r = "MakeReq ''/nope/''"
  have fl: "\<not> print_headers ?r" "\<not> use_etags ?r" "\<not> use_lastmod ?r"
    by (simp_all add: MakeReq_def print_headers_def use_etags_def use_lastmod_def Index_def)
  have "Method ?r = ''GET''" "Path ?r \<noteq> ''/''" by (simp_all add: MakeReq_def)
  from handle_plain [OF this(1) fl(1) validate_no_channel [OF fl(2,3)] this(2) valid_clock_example]
  show ?thesis by (simp add: status_of_def)
qed

text \<open>
  C5, amended: a GET for a path that carries none of the flags returns status 200, under
  any clock reading in a year of four digits: the help text for the path \<^verbatim>\<open>/\<close>, and
  for any other such path the two lines of content, the date of the content and the time
  of generation, with no validator header.
\<close>

theorem unflagged_GET_gets_200:
  "Method r = ''GET'' \<Longrightarrow> \<not> print_headers r \<Longrightarrow> \<not> use_etags r \<Longrightarrow> \<not> use_lastmod r \<Longrightarrow>
   \<not> be_static r \<Longrightarrow> valid_clock now \<Longrightarrow>
   handle now r =
     Inr (if Path r = ''/''
          then \<lparr>StatusCode = 200,
                RespHeader = [(''Content-Type'', [''text/plain; charset=utf-8'']),
                              (''Content-Length'', [''553''])],
                Body = help_text\<rparr>
          else \<lparr>StatusCode = 200,
                RespHeader = [(''Content-Type'', [''text/plain; charset=utf-8'']),
                              (''Content-Length'', [''92''])],
                Body = ''Content date: '' @
                       Format_RFC1123Z (then_time granularity_in_seconds now False) @
                       ''\<newline>'' @
                       ''Generated:    '' @ Format_RFC1123Z now @ ''\<newline>''\<rparr>)"
proof (cases "Path r = ''/''")
  case True
  assume "Method r = ''GET''" "\<not> use_etags r" "\<not> use_lastmod r"
  then show ?thesis
    using True
    by (simp add: handle_def validate_no_channel Set_header_def canonical_keys
        length_help_text Itoa_553)
next
  case False
  assume a: "Method r = ''GET''" "\<not> print_headers r" "\<not> use_etags r" "\<not> use_lastmod r"
    "\<not> be_static r" "valid_clock now"
  from handle_plain [OF a(1) a(2) validate_no_channel [OF a(3,4)] False a(6)]
  show ?thesis
    using False a(5) by (simp add: Set_header_def canonical_keys then_header_def)
qed

theorem unflagged_GET_gets_200_witness:
  "Method (MakeReq ''/gosomewhere/notexpected/'') = ''GET'' \<and>
   \<not> print_headers (MakeReq ''/gosomewhere/notexpected/'') \<and>
   \<not> use_etags (MakeReq ''/gosomewhere/notexpected/'') \<and>
   \<not> use_lastmod (MakeReq ''/gosomewhere/notexpected/'') \<and>
   \<not> be_static (MakeReq ''/gosomewhere/notexpected/'') \<and>
   valid_clock (Date 2026 11 3 9 5 47 123) \<and>
   handle (Date 2026 11 3 9 5 47 123) (MakeReq ''/gosomewhere/notexpected/'') =
     Inr \<lparr>StatusCode = 200,
          RespHeader = [(''Content-Type'', [''text/plain; charset=utf-8'']),
                        (''Content-Length'', [''92''])],
          Body = ''Content date: Tue, 03 Nov 2026 09:05:45 +0000\<newline>'' @
                 ''Generated:    Tue, 03 Nov 2026 09:05:47 +0000\<newline>''\<rparr>"
proof -
  let ?r = "MakeReq ''/gosomewhere/notexpected/''"
  have fl: "\<not> print_headers ?r" "\<not> use_etags ?r" "\<not> use_lastmod ?r" "\<not> be_static ?r"
    by (simp_all add: MakeReq_def print_headers_def use_etags_def use_lastmod_def
        be_static_def Index_def)
  have m: "Method ?r = ''GET''" and p: "Path ?r \<noteq> ''/''" by (simp_all add: MakeReq_def)
  have th: "Format_RFC1123Z (then_time granularity_in_seconds (Date 2026 11 3 9 5 47 123) False)
      = ''Tue, 03 Nov 2026 09:05:45 +0000''"
    using then_header_example [OF fl(4)] fl(4) by (simp add: then_header_def)
  show ?thesis
    using unflagged_GET_gets_200 [OF m fl valid_clock_example] fl m p th
    by (simp add: now_header_example valid_clock_example)
qed

subsection \<open>The date channel\<close>



text \<open>
  C1: the request \<^verbatim>\<open>modded\<close> that \<^verbatim>\<open>DateModV.Build\<close> makes from a 200 response, with the
  Last-Modified value of that response as its If-Modified-Since value, sent at the same
  clock reading for the same path. The claim has it answered with 304; the handler
  answers it with 200 and the full content.
\<close>

theorem If_Modified_Since_round_trip_200:
  "handle (Date 2026 11 3 9 5 47 123) (MakeReq ''/static/lastmod/functest/'') =
     Inr \<lparr>StatusCode = 200,
          RespHeader = [(''Content-Type'', [''text/plain; charset=utf-8'']),
                        (''Last-Modified'', [''Thu, 20 Dec 2012 20:12:12 +0000'']),
                        (''Content-Length'', [''92''])],
          Body = ''Content date: Thu, 20 Dec 2012 20:12:12 +0000\<newline>'' @
                 ''Generated:    Tue, 03 Nov 2026 09:05:47 +0000\<newline>''\<rparr> \<and>
   fst (DateModV_Build ''/static/lastmod/functest/''
     \<lparr>StatusCode = 200,
      RespHeader = [(''Content-Type'', [''text/plain; charset=utf-8'']),
                    (''Last-Modified'', [''Thu, 20 Dec 2012 20:12:12 +0000'']),
                    (''Content-Length'', [''92''])],
      Body = ''Content date: Thu, 20 Dec 2012 20:12:12 +0000\<newline>'' @
             ''Generated:    Tue, 03 Nov 2026 09:05:47 +0000\<newline>''\<rparr>) =
     \<lparr>Method = ''GET'', Path = ''/static/lastmod/functest/'',
      Header = [(''If-Modified-Since'', [''Thu, 20 Dec 2012 20:12:12 +0000''])]\<rparr> \<and>
   handle (Date 2026 11 3 9 5 47 123)
     \<lparr>Method = ''GET'', Path = ''/static/lastmod/functest/'',
      Header = [(''If-Modified-Since'', [''Thu, 20 Dec 2012 20:12:12 +0000''])]\<rparr> =
     Inr \<lparr>StatusCode = 200,
          RespHeader = [(''Content-Type'', [''text/plain; charset=utf-8'']),
                        (''Last-Modified'', [''Thu, 20 Dec 2012 20:12:12 +0000'']),
                        (''Content-Length'', [''92''])],
          Body = ''Content date: Thu, 20 Dec 2012 20:12:12 +0000\<newline>'' @
                 ''Generated:    Tue, 03 Nov 2026 09:05:47 +0000\<newline>''\<rparr>"
proof -
  let ?now = "Date 2026 11 3 9 5 47 123"
  let ?p = "''/static/lastmod/functest/''"
  have fl: "use_lastmod \<lparr>Method = ''GET'', Path = ?p, Header = h\<rparr>"
    "\<not> use_etags \<lparr>Method = ''GET'', Path = ?p, Header = h\<rparr>"
    "be_static \<lparr>Method = ''GET'', Path = ?p, Header = h\<rparr>"
    "\<not> print_headers \<lparr>Method = ''GET'', Path = ?p, Header = h\<rparr>" for h
    by (simp_all add: use_lastmod_def use_etags_def be_static_def print_headers_def Index_def)
  have th: "then_header ?now \<lparr>Method = ''GET'', Path = ?p, Header = h\<rparr> =
      ''Thu, 20 Dec 2012 20:12:12 +0000''" for h
    using fl(3) by (rule then_header_static)
  have v1: "validate ?now \<lparr>Method = ''GET'', Path = ?p, Header = []\<rparr> =
      Inr [(''Last-Modified'', ''Thu, 20 Dec 2012 20:12:12 +0000'')]"
    using fl [of "[]"] by (simp add: validate_def th Get_def)
  have v2: "validate ?now \<lparr>Method = ''GET'', Path = ?p,
        Header = [(''If-Modified-Since'', [''Thu, 20 Dec 2012 20:12:12 +0000''])]\<rparr> =
      Inr [(''Last-Modified'', ''Thu, 20 Dec 2012 20:12:12 +0000'')]"
    using fl [of "[(''If-Modified-Since'', [''Thu, 20 Dec 2012 20:12:12 +0000''])]"]
    by (simp add: validate_def th Get_examples)
  have h1: "handle ?now \<lparr>Method = ''GET'', Path = ?p, Header = []\<rparr> =
     Inr \<lparr>StatusCode = 200,
          RespHeader = [(''Content-Type'', [''text/plain; charset=utf-8'']),
                        (''Last-Modified'', [''Thu, 20 Dec 2012 20:12:12 +0000'']),
                        (''Content-Length'', [''92''])],
          Body = ''Content date: Thu, 20 Dec 2012 20:12:12 +0000\<newline>'' @
                 ''Generated:    Tue, 03 Nov 2026 09:05:47 +0000\<newline>''\<rparr>"
    using handle_plain [OF _ fl(4) v1 _ valid_clock_example]
    by (simp add: th now_header_example Set_header_def canonical_keys)
  have h2: "handle ?now \<lparr>Method = ''GET'', Path = ?p,
        Header = [(''If-Modified-Since'', [''Thu, 20 Dec 2012 20:12:12 +0000''])]\<rparr> =
     Inr \<lparr>StatusCode = 200,
          RespHeader = [(''Content-Type'', [''text/plain; charset=utf-8'']),
                        (''Last-Modified'', [''Thu, 20 Dec 2012 20:12:12 +0000'']),
                        (''Content-Length'', [''92''])],
          Body = ''Content date: Thu, 20 Dec 2012 20:12:12 +0000\<newline>'' @
                 ''Generated:    Tue, 03 Nov 2026 09:05:47 +0000\<newline>''\<rparr>"
    using handle_plain [OF _ fl(4) v2 _ valid_clock_example]
    by (simp add: th now_header_example Set_header_def canonical_keys)
  have b: "fst (DateModV_Build ?p
     \<lparr>StatusCode = 200,
      RespHeader = [(''Content-Type'', [''text/plain; charset=utf-8'']),
                    (''Last-Modified'', [''Thu, 20 Dec 2012 20:12:12 +0000'']),
                    (''Content-Length'', [''92''])],
      Body = ''Content date: Thu, 20 Dec 2012 20:12:12 +0000\<newline>'' @
             ''Generated:    Tue, 03 Nov 2026 09:05:47 +0000\<newline>''\<rparr>) =
     \<lparr>Method = ''GET'', Path = ?p,
      Header = [(''If-Modified-Since'', [''Thu, 20 Dec 2012 20:12:12 +0000''])]\<rparr>"
    by (simp add: DateModV_Build_def MakeReq_def Add_def Get_def canonical_keys)
  show ?thesis
    using h1 h2 b by (simp add: MakeReq_def)
qed

subsection \<open>The ETag channel\<close>

text \<open>
  The order of the two checks of the ETag channel, for values that are equal to the
  current tag or differ from it: a differing If-Match value gives 412 whatever the other
  headers are, and when If-Match is absent or equal, an If-None-Match value equal to the
  current tag gives 304 whatever the values of the date channel are.
\<close>

lemma etag_order_exact_match:
  "(Method r = ''GET'' \<and> use_etags r \<and> Get (Header r) ''If-Match'' \<noteq> [] \<and>
    Get (Header r) ''If-Match'' \<noteq> ''*'' \<and> Get (Header r) ''If-Match'' \<noteq> etag_enc now r \<longrightarrow>
      handle now r =
        Inr \<lparr>StatusCode = 412,
             RespHeader = [(''Content-Type'', [''text/plain; charset=utf-8'']),
                           (''X-Content-Type-Options'', [''nosniff''])],
             Body = ''If-Match failed: ETag did not match\<newline>''\<rparr>) \<and>
   (Method r = ''GET'' \<and> use_etags r \<and>
    (Get (Header r) ''If-Match'' = [] \<or> Get (Header r) ''If-Match'' = etag_enc now r) \<and>
    Get (Header r) ''If-None-Match'' = etag_enc now r \<longrightarrow>
      handle now r =
        Inr \<lparr>StatusCode = 304,
             RespHeader = [(''Content-Type'', [''text/plain; charset=utf-8'']),
                           (''X-Content-Type-Options'', [''nosniff''])],
             Body = ''Content matches on If-None-Match\<newline>''\<rparr>)"
proof (intro conjI impI)
  assume a: "Method r = ''GET'' \<and> use_etags r \<and> Get (Header r) ''If-Match'' \<noteq> [] \<and>
    Get (Header r) ''If-Match'' \<noteq> ''*'' \<and> Get (Header r) ''If-Match'' \<noteq> etag_enc now r"
  then have "validate now r = Inl (Error [] ''If-Match failed: ETag did not match'' 412)"
    by (intro validate_If_Match_failed) simp_all
  with a show "handle now r =
        Inr \<lparr>StatusCode = 412,
             RespHeader = [(''Content-Type'', [''text/plain; charset=utf-8'']),
                           (''X-Content-Type-Options'', [''nosniff''])],
             Body = ''If-Match failed: ETag did not match\<newline>''\<rparr>"
    by (simp add: handle_GET_stopped Error_value)
next
  assume a: "Method r = ''GET'' \<and> use_etags r \<and>
    (Get (Header r) ''If-Match'' = [] \<or> Get (Header r) ''If-Match'' = etag_enc now r) \<and>
    Get (Header r) ''If-None-Match'' = etag_enc now r"
  then have "validate now r = Inl (Error [] ''Content matches on If-None-Match'' 304)"
    by (intro validate_If_None_Match_matched) simp_all
  with a show "handle now r =
        Inr \<lparr>StatusCode = 304,
             RespHeader = [(''Content-Type'', [''text/plain; charset=utf-8'']),
                           (''X-Content-Type-Options'', [''nosniff''])],
             Body = ''Content matches on If-None-Match\<newline>''\<rparr>"
    by (simp add: handle_GET_stopped Error_value)
qed

lemma etag_order_exact_match_example:
  \<open>handle (Date 2026 11 3 9 5 47 123)
     \<lparr>Method = ''GET'', Path = ''/static/etag/lastmod/x/'',
      Header = [(''If-Match'', [''"2012-12-20,20:12:11"'']),
                (''If-None-Match'', [''"2012-12-20,20:12:12"'']),
                (''If-Modified-Since'', [''Thu, 20 Dec 2012 20:12:11 +0000'']),
                (''If-Unmodified-Since'', [''Thu, 20 Dec 2012 20:12:12 +0000''])]\<rparr> =
     Inr \<lparr>StatusCode = 412,
          RespHeader = [(''Content-Type'', [''text/plain; charset=utf-8'']),
                        (''X-Content-Type-Options'', [''nosniff''])],
          Body = ''If-Match failed: ETag did not match\<newline>''\<rparr> \<and>
   handle (Date 2026 11 3 9 5 47 123)
     \<lparr>Method = ''GET'', Path = ''/static/etag/lastmod/x/'',
      Header = [(''If-None-Match'', [''"2012-12-20,20:12:12"'']),
                (''If-Unmodified-Since'', [''Thu, 20 Dec 2012 20:12:11 +0000''])]\<rparr> =
     Inr \<lparr>StatusCode = 304,
          RespHeader = [(''Content-Type'', [''text/plain; charset=utf-8'']),
                        (''X-Content-Type-Options'', [''nosniff''])],
          Body = ''Content matches on If-None-Match\<newline>''\<rparr>\<close>
proof -
  let ?now = "Date 2026 11 3 9 5 47 123"
  let ?r1 = \<open>\<lparr>Method = ''GET'', Path = ''/static/etag/lastmod/x/'',
      Header = [(''If-Match'', [''"2012-12-20,20:12:11"'']),
                (''If-None-Match'', [''"2012-12-20,20:12:12"'']),
                (''If-Modified-Since'', [''Thu, 20 Dec 2012 20:12:11 +0000'']),
                (''If-Unmodified-Since'', [''Thu, 20 Dec 2012 20:12:12 +0000''])]\<rparr>\<close>
  let ?r2 = \<open>\<lparr>Method = ''GET'', Path = ''/static/etag/lastmod/x/'',
      Header = [(''If-None-Match'', [''"2012-12-20,20:12:12"'']),
                (''If-Unmodified-Since'', [''Thu, 20 Dec 2012 20:12:11 +0000''])]\<rparr>\<close>
  have fl: "use_etags \<lparr>Method = ''GET'', Path = ''/static/etag/lastmod/x/'', Header = h\<rparr>"
    "be_static \<lparr>Method = ''GET'', Path = ''/static/etag/lastmod/x/'', Header = h\<rparr>" for h
    by (simp_all add: use_etags_def be_static_def Index_def)
  have tag: \<open>etag_enc ?now \<lparr>Method = ''GET'', Path = ''/static/etag/lastmod/x/'', Header = h\<rparr> =
      ''"2012-12-20,20:12:12"''\<close> for h
    using fl(2) by (rule etag_enc_static)
  have g1: \<open>Get (Header ?r1) ''If-Match'' = ''"2012-12-20,20:12:11"''\<close>
    by (simp add: Get_def canonical_keys)
  have g2: \<open>Get (Header ?r2) ''If-Match'' = []\<close>
    \<open>Get (Header ?r2) ''If-None-Match'' = ''"2012-12-20,20:12:12"''\<close>
    by (simp_all add: Get_def canonical_keys)
  show ?thesis
    using etag_order_exact_match [of ?r1 ?now] etag_order_exact_match [of ?r2 ?now] fl g1 g2
    by (simp add: tag)
qed

text \<open>
  C8: the precedence between contradictory headers on a resource with the flag
  \<^verbatim>\<open>etag\<close>. The claim has an If-None-Match value that is the wildcard or the current
  tag answered with 304 before the date channel is consulted, and an If-Match value fail
  only when it is neither. The handler compares its own tag, not the value of the
  header, with the wildcard: with the wildcard as If-None-Match value and a stale
  If-Unmodified-Since value it answers 412 from the date channel, with the wildcard as
  If-None-Match value alone it answers 200, and with the wildcard as If-Match value and
  the current tag as If-None-Match value it answers 412.
\<close>

theorem If_None_Match_wildcard_not_304:
  \<open>handle (Date 2026 11 3 9 5 47 123)
     \<lparr>Method = ''GET'', Path = ''/static/etag/lastmod/x/'',
      Header = [(''If-None-Match'', [''*'']),
                (''If-Unmodified-Since'', [''Thu, 20 Dec 2012 20:12:11 +0000''])]\<rparr> =
     Inr \<lparr>StatusCode = 412,
          RespHeader = [(''Content-Type'', [''text/plain; charset=utf-8'']),
                        (''X-Content-Type-Options'', [''nosniff''])],
          Body = ''Document has been modified\<newline>''\<rparr> \<and>
   handle (Date 2026 11 3 9 5 47 123)
     \<lparr>Method = ''GET'', Path = ''/static/etag/lastmod/x/'',
      Header = [(''If-None-Match'', [''*''])]\<rparr> =
     Inr \<lparr>StatusCode = 200,
          RespHeader = [(''Content-Type'', [''text/plain; charset=utf-8'']),
                        (''E-Tag'', [''"2012-12-20,20:12:12"'']),
                        (''Last-Modified'', [''Thu, 20 Dec 2012 20:12:12 +0000'']),
                        (''Content-Length'', [''92''])],
          Body = ''Content date: Thu, 20 Dec 2012 20:12:12 +0000\<newline>'' @
                 ''Generated:    Tue, 03 Nov 2026 09:05:47 +0000\<newline>''\<rparr> \<and>
   handle (Date 2026 11 3 9 5 47 123)
     \<lparr>Method = ''GET'', Path = ''/static/etag/lastmod/x/'',
      Header = [(''If-Match'', [''*'']),
                (''If-None-Match'', [''"2012-12-20,20:12:12"''])]\<rparr> =
     Inr \<lparr>StatusCode = 412,
          RespHeader = [(''Content-Type'', [''text/plain; charset=utf-8'']),
                        (''X-Content-Type-Options'', [''nosniff''])],
          Body = ''If-Match failed: ETag did not match\<newline>''\<rparr>\<close>
proof -
  let ?now = "Date 2026 11 3 9 5 47 123"
  let ?p = "''/static/etag/lastmod/x/''"
  let ?r1 = "\<lparr>Method = ''GET'', Path = ?p,
      Header = [(''If-None-Match'', [''*'']),
                (''If-Unmodified-Since'', [''Thu, 20 Dec 2012 20:12:11 +0000''])]\<rparr>"
  let ?r2 = "\<lparr>Method = ''GET'', Path = ?p, Header = [(''If-None-Match'', [''*''])]\<rparr>"
  let ?r3 = \<open>\<lparr>Method = ''GET'', Path = ?p,
      Header = [(''If-Match'', [''*'']),
                (''If-None-Match'', [''"2012-12-20,20:12:12"''])]\<rparr>\<close>
  have fl: "use_etags \<lparr>Method = ''GET'', Path = ?p, Header = h\<rparr>"
    "use_lastmod \<lparr>Method = ''GET'', Path = ?p, Header = h\<rparr>"
    "be_static \<lparr>Method = ''GET'', Path = ?p, Header = h\<rparr>"
    "\<not> print_headers \<lparr>Method = ''GET'', Path = ?p, Header = h\<rparr>" for h
    by (simp_all add: use_etags_def use_lastmod_def be_static_def print_headers_def Index_def)
  have tag: \<open>etag_enc ?now \<lparr>Method = ''GET'', Path = ?p, Header = h\<rparr> =
      ''"2012-12-20,20:12:12"''\<close> for h
    using fl(3) by (rule etag_enc_static)
  have th: "then_header ?now \<lparr>Method = ''GET'', Path = ?p, Header = h\<rparr> =
      ''Thu, 20 Dec 2012 20:12:12 +0000''" for h
    using fl(3) by (rule then_header_static)
  have v1: "validate ?now ?r1 = Inl (Error [] ''Document has been modified'' 412)"
    using fl(1,2) by (simp add: validate_def tag th Get_def canonical_keys)
  have h1: "handle ?now ?r1 = Inr (Error [] ''Document has been modified'' 412)"
    using v1 by (intro handle_GET_stopped) simp_all
  have v2: \<open>validate ?now ?r2 =
      Inr [(''E-Tag'', ''"2012-12-20,20:12:12"''),
           (''Last-Modified'', ''Thu, 20 Dec 2012 20:12:12 +0000'')]\<close>
    using fl(1,2) by (simp add: validate_def tag th Get_def canonical_keys)
  have h2: \<open>handle ?now ?r2 =
     Inr \<lparr>StatusCode = 200,
          RespHeader = [(''Content-Type'', [''text/plain; charset=utf-8'']),
                        (''E-Tag'', [''"2012-12-20,20:12:12"'']),
                        (''Last-Modified'', [''Thu, 20 Dec 2012 20:12:12 +0000'']),
                        (''Content-Length'', [''92''])],
          Body = ''Content date: Thu, 20 Dec 2012 20:12:12 +0000\<newline>'' @
                 ''Generated:    Tue, 03 Nov 2026 09:05:47 +0000\<newline>''\<rparr>\<close>
    using handle_plain [OF _ fl(4) v2 _ valid_clock_example]
    by (simp add: th now_header_example Set_header_def canonical_keys)
  have v3: "validate ?now ?r3 = Inl (Error [] ''If-Match failed: ETag did not match'' 412)"
    using fl(1) by (intro validate_If_Match_failed) (simp_all add: tag Get_def canonical_keys)
  have h3: "handle ?now ?r3 = Inr (Error [] ''If-Match failed: ETag did not match'' 412)"
    using v3 by (intro handle_GET_stopped) simp_all
  show ?thesis
    using h1 h2 h3 by (simp add: Error_value)
qed

text \<open>
  C2: the 200 response of a resource with the flag \<^verbatim>\<open>etag\<close>. The claim has the quoted tag
  in the header ETag; the handler sets it under the key E-Tag, a reader of the header
  ETag gets the empty string, and the requests that \<^verbatim>\<open>ETagV.Build\<close> makes from the
  response carry empty values.
\<close>

theorem ETag_header_absent:
  \<open>handle (Date 2026 11 3 9 5 47 123) (MakeReq ''/static/etag/functest/'') =
     Inr \<lparr>StatusCode = 200,
          RespHeader = [(''Content-Type'', [''text/plain; charset=utf-8'']),
                        (''E-Tag'', [''"2012-12-20,20:12:12"'']),
                        (''Content-Length'', [''92''])],
          Body = ''Content date: Thu, 20 Dec 2012 20:12:12 +0000\<newline>'' @
                 ''Generated:    Tue, 03 Nov 2026 09:05:47 +0000\<newline>''\<rparr> \<and>
   Get [(''Content-Type'', [''text/plain; charset=utf-8'']),
        (''E-Tag'', [''"2012-12-20,20:12:12"'']),
        (''Content-Length'', [''92''])] ''ETag'' = [] \<and>
   ETagV_Build ''/static/etag/functest/''
     \<lparr>StatusCode = 200,
      RespHeader = [(''Content-Type'', [''text/plain; charset=utf-8'']),
                    (''E-Tag'', [''"2012-12-20,20:12:12"'']),
                    (''Content-Length'', [''92''])],
      Body = ''Content date: Thu, 20 Dec 2012 20:12:12 +0000\<newline>'' @
             ''Generated:    Tue, 03 Nov 2026 09:05:47 +0000\<newline>''\<rparr> =
     (\<lparr>Method = ''GET'', Path = ''/static/etag/functest/'',
       Header = [(''If-None-Match'', [[]])]\<rparr>,
      \<lparr>Method = ''GET'', Path = ''/static/etag/functest/'',
       Header = [(''If-Match'', [[]])]\<rparr>)\<close>
proof -
  let ?now = "Date 2026 11 3 9 5 47 123"
  let ?r = "\<lparr>Method = ''GET'', Path = ''/static/etag/functest/'', Header = []\<rparr>"
  have fl: "\<not> use_lastmod ?r" "use_etags ?r" "be_static ?r" "\<not> print_headers ?r"
    by (simp_all add: use_lastmod_def use_etags_def be_static_def print_headers_def Index_def)
  have v: \<open>validate ?now ?r = Inr [(''E-Tag'', ''"2012-12-20,20:12:12"'')]\<close>
    using fl by (simp add: validate_def etag_enc_static Get_def)
  have h: \<open>handle ?now ?r =
     Inr \<lparr>StatusCode = 200,
          RespHeader = [(''Content-Type'', [''text/plain; charset=utf-8'']),
                        (''E-Tag'', [''"2012-12-20,20:12:12"'']),
                        (''Content-Length'', [''92''])],
          Body = ''Content date: Thu, 20 Dec 2012 20:12:12 +0000\<newline>'' @
                 ''Generated:    Tue, 03 Nov 2026 09:05:47 +0000\<newline>''\<rparr>\<close>
    using handle_plain [OF _ fl(4) v _ valid_clock_example] fl(3)
    by (simp add: then_header_static now_header_example Set_header_def canonical_keys)
  show ?thesis
    using h by (simp add: MakeReq_def ETagV_Build_def Add_def Get_def canonical_keys)
qed

text \<open>
  C3: a GET with the wildcard as its If-Match value, on a resource with the flag
  \<^verbatim>\<open>etag\<close>. The claim has it never answered with 412; the handler compares its own tag,
  not the value of the header, with the wildcard, and answers 412.
\<close>

theorem If_Match_wildcard_412:
  "handle (Date 2026 11 3 9 5 47 123)
     \<lparr>Method = ''GET'', Path = ''/static/etag/functest/'', Header = [(''If-Match'', [''*''])]\<rparr> =
     Inr \<lparr>StatusCode = 412,
          RespHeader = [(''Content-Type'', [''text/plain; charset=utf-8'']),
                        (''X-Content-Type-Options'', [''nosniff''])],
          Body = ''If-Match failed: ETag did not match\<newline>''\<rparr>"
proof -
  let ?now = "Date 2026 11 3 9 5 47 123"
  let ?r = "\<lparr>Method = ''GET'', Path = ''/static/etag/functest/'',
             Header = [(''If-Match'', [''*''])]\<rparr>"
  have fl: "use_etags ?r" "be_static ?r"
    by (simp_all add: use_etags_def be_static_def Index_def)
  have "validate ?now ?r = Inl (Error [] ''If-Match failed: ETag did not match'' 412)"
    using fl(1) by (intro validate_If_Match_failed) (simp_all add: etag_enc_static [OF fl(2)] Get_examples)
  then have "handle ?now ?r = Inr (Error [] ''If-Match failed: ETag did not match'' 412)"
    by (intro handle_GET_stopped) simp_all
  then show ?thesis by (simp add: Error_value)
qed

end
